theory Spec2Isabelle
  imports Main
begin

section \<open>The launch file of the Spot driver\<close>

text \<open>
  The source is \<^verbatim>\<open>spot_driver/launch/spot_driver.launch.py\<close>. Its decision logic is
  modelled as pure functions of the launch arguments. A launch argument is a string; a
  \<^verbatim>\<open>LaunchConfiguration(...).perform(context)\<close> reads it, so the model passes the
  string itself.
\<close>

subsection \<open>Strings of the Python library\<close>

text \<open>
  \<^verbatim>\<open>str.lower()\<close>: an ASCII capital letter becomes its small letter, every other
  character of the ASCII range is kept. The words the source compares a lower-cased
  string with (\<^verbatim>\<open>from_spot\<close>, \<^verbatim>\<open>from_nodelets\<close>, \<^verbatim>\<open>disable\<close>,
  \<^verbatim>\<open>true\<close>) have no letter that a character outside ASCII lower-cases to, so the
  bytes beyond ASCII are kept as they are.
\<close>

definition lower_char :: "char \<Rightarrow> char" where
  "lower_char c =
     (let n = (of_char c :: nat)
      in if 65 \<le> n \<and> n \<le> 90 then char_of (n + 32) else c)"

definition lower :: "string \<Rightarrow> string" where
  "lower s = map lower_char s"

text \<open>
  \<^verbatim>\<open>PathJoinSubstitution(segments).perform(context)\<close> of the launch library is
  \<^verbatim>\<open>os.path.join(*segments)\<close> on the performed segments, which on POSIX is
  \<^verbatim>\<open>
  def join(a, *p):
      path = a
      for b in p:
          if b.startswith('/'):
              path = b
          elif not path or path.endswith('/'):
              path += b
          else:
              path += '/' + b
      return path
  \<close>
\<close>

definition startswith_sep :: "string \<Rightarrow> bool" where
  "startswith_sep b = (case b of [] \<Rightarrow> False | c # _ \<Rightarrow> c = CHR ''/'')"

definition endswith_sep :: "string \<Rightarrow> bool" where
  "endswith_sep path = (case rev path of [] \<Rightarrow> False | c # _ \<Rightarrow> c = CHR ''/'')"

definition join_step :: "string \<Rightarrow> string \<Rightarrow> string" where
  "join_step path b =
     (if startswith_sep b then b
      else if path = [] \<or> endswith_sep path then path @ b
      else path @ ''/'' @ b)"

definition path_join :: "string \<Rightarrow> string list \<Rightarrow> string" where
  "path_join a p = foldl join_step a p"

subsection \<open>Data\<close>

text \<open>
  The members of the enumeration have the distinct values \<^verbatim>\<open>(0,)\<close>, \<^verbatim>\<open>(1,)\<close>
  and \<^verbatim>\<open>(2,)\<close>, so they are three different members.
\<close>

datatype DepthRegisteredMode = DISABLE | FROM_SPOT | FROM_NODELETS

text \<open>The keyword arguments of a \<^verbatim>\<open>launch_ros.descriptions.ComposableNode\<close>.\<close>

record ComposableNode =
  package :: string
  plugin :: string
  name :: string
  namespace :: string
  remappings :: "(string \<times> string) list"

text \<open>The launch arguments that \<^verbatim>\<open>generate_launch_description\<close> declares.\<close>

record LaunchArguments =
  config_file :: string
  has_arm :: string
  tf_prefix :: string
  launch_rviz :: string
  rviz_config_file :: string
  depth_registered_mode :: string
  publish_point_clouds :: string
  spot_name :: string

text \<open>
  An entry of a node's \<^verbatim>\<open>parameters\<close> list: the configuration file, or a dictionary
  written in the launch file.
\<close>

datatype ParameterValue = Text string | Flag bool

datatype Parameter = ParameterFile string | ParameterDict "(string \<times> ParameterValue) list"

text \<open>
  What \<^verbatim>\<open>launch_setup\<close> adds to the launch description, as far as the launch file
  decides it: the parameters and namespace of the driver node, the prefix handed to
  xacro, the argument and condition of the RViz inclusion, and the container with its
  composable nodes.
\<close>

record LaunchSetup =
  spot_driver_parameters :: "Parameter list"
  spot_driver_namespace :: string
  xacro_arm :: string
  xacro_tf_prefix :: string
  rviz_condition :: string
  rviz_arguments :: "(string \<times> string) list"
  container_namespace :: string
  composable_node_descriptions :: "ComposableNode list"

subsection \<open>Camera sources and composable nodes\<close>

definition get_camera_sources :: "string \<Rightarrow> string list" where
  "get_camera_sources has_arm_value =
     (let camera_sources = [''frontleft'', ''frontright'', ''left'', ''right'', ''back'']
      in if has_arm_value = ''true'' \<or> has_arm_value = ''True''
         then camera_sources @ [''hand'']
         else camera_sources)"

definition register_node :: "string \<Rightarrow> string \<Rightarrow> ComposableNode" where
  "register_node spot camera =
     \<lparr> package = ''depth_image_proc'',
       plugin = ''depth_image_proc::RegisterNode'',
       name = ''register_node_'' @ camera,
       namespace = spot,
       remappings =
         [(''depth/image_rect'', path_join ''depth'' [camera, ''image'']),
          (''depth/camera_info'', path_join ''depth'' [camera, ''camera_info'']),
          (''rgb/camera_info'', path_join ''camera'' [camera, ''camera_info'']),
          (''depth_registered/image_rect'', path_join ''depth_registered'' [camera, ''image'']),
          (''depth_registered/camera_info'',
             path_join ''depth_registered'' [camera, ''camera_info''])] \<rparr>"

text \<open>The loop over the cameras appends one node to the list built so far.\<close>

fun register_loop :: "string \<Rightarrow> string list \<Rightarrow> ComposableNode list \<Rightarrow> ComposableNode list" where
  "register_loop spot [] composable_nodes = composable_nodes"
| "register_loop spot (camera # cameras) composable_nodes =
     register_loop spot cameras (composable_nodes @ [register_node spot camera])"

definition create_depth_registration_nodelets :: "string \<Rightarrow> string \<Rightarrow> ComposableNode list" where
  "create_depth_registration_nodelets spot has_arm_value =
     register_loop spot (get_camera_sources has_arm_value) []"

definition point_cloud_node :: "string \<Rightarrow> string \<Rightarrow> ComposableNode" where
  "point_cloud_node spot camera =
     \<lparr> package = ''depth_image_proc'',
       plugin = ''depth_image_proc::PointCloudXyzrgbNode'',
       name = ''point_cloud_xyzrgb_node_'' @ camera,
       namespace = spot,
       remappings =
         [(''rgb/camera_info'', path_join ''camera'' [camera, ''camera_info'']),
          (''rgb/image_rect_color'', path_join ''camera'' [camera, ''image'']),
          (''depth_registered/image_rect'', path_join ''depth_registered'' [camera, ''image'']),
          (''points'', path_join ''depth_registered'' [camera, ''points''])] \<rparr>"

fun point_cloud_loop :: "string \<Rightarrow> string list \<Rightarrow> ComposableNode list \<Rightarrow> ComposableNode list" where
  "point_cloud_loop spot [] composable_nodes = composable_nodes"
| "point_cloud_loop spot (camera # cameras) composable_nodes =
     point_cloud_loop spot cameras (composable_nodes @ [point_cloud_node spot camera])"

definition create_point_cloud_nodelets :: "string \<Rightarrow> string \<Rightarrow> ComposableNode list" where
  "create_point_cloud_nodelets spot has_arm_value =
     point_cloud_loop spot (get_camera_sources has_arm_value) []"

subsection \<open>The steps of \<^verbatim>\<open>launch_setup\<close>\<close>

text \<open>Lines 123 to 131: the mode, from the lower-cased launch argument.\<close>

definition resolve_mode :: "string \<Rightarrow> DepthRegisteredMode" where
  "resolve_mode raw =
     (let depth_registered_mode_string = lower raw
      in if depth_registered_mode_string = ''from_spot'' then FROM_SPOT
         else if depth_registered_mode_string = ''from_nodelets'' then FROM_NODELETS
         else if depth_registered_mode_string = ''disable'' then DISABLE
         else DISABLE)"

text \<open>Line 133: the request for point clouds, from the lower-cased launch argument.\<close>

definition point_clouds_requested :: "string \<Rightarrow> bool" where
  "point_clouds_requested raw = (if lower raw = ''true'' then True else False)"

text \<open>Lines 134 and 135: a disabled mode overrides the request.\<close>

definition resolve_point_cloud_policy :: "bool \<Rightarrow> DepthRegisteredMode \<Rightarrow> bool" where
  "resolve_point_cloud_policy requested mode = (if mode = DISABLE then False else requested)"

text \<open>Lines 137 to 140: the parameters of the driver node.\<close>

definition spot_driver_params :: "string \<Rightarrow> string \<Rightarrow> DepthRegisteredMode \<Rightarrow> Parameter list" where
  "spot_driver_params config spot mode =
     (let params = [ParameterFile config, ParameterDict [(''spot_name'', Text spot)]]
      in if mode \<noteq> FROM_SPOT
         then params @ [ParameterDict [(''publish_depth_registered'', Flag False)]]
         else params)"

text \<open>
  Lines 152 and 153: the prefix of the frames. An empty string is false in Python; the
  substitution is performed when the xacro command is.
\<close>

definition resolve_tf_prefix :: "string \<Rightarrow> string \<Rightarrow> string" where
  "resolve_tf_prefix prefix spot =
     (if prefix = [] \<and> spot \<noteq> [] then path_join spot [''''] else prefix)"

definition launch_setup :: "LaunchArguments \<Rightarrow> LaunchSetup" where
  "launch_setup args =
     (let depth_registered_mode_value = resolve_mode (depth_registered_mode args);
          publish_point_clouds_value =
            resolve_point_cloud_policy (point_clouds_requested (publish_point_clouds args))
              depth_registered_mode_value
      in \<lparr> spot_driver_parameters =
             spot_driver_params (config_file args) (spot_name args) depth_registered_mode_value,
           spot_driver_namespace = spot_name args,
           xacro_arm = has_arm args,
           xacro_tf_prefix = resolve_tf_prefix (tf_prefix args) (spot_name args),
           rviz_condition = launch_rviz args,
           rviz_arguments =
             [(''spot_name'', spot_name args), (''rviz_config_file'', rviz_config_file args)],
           container_namespace = spot_name args,
           composable_node_descriptions =
             (if depth_registered_mode_value = FROM_NODELETS
              then create_depth_registration_nodelets (spot_name args) (has_arm args)
              else [])
             @ (if publish_point_clouds_value
                then create_point_cloud_nodelets (spot_name args) (has_arm args)
                else []) \<rparr>)"

text \<open>The value a parameter list gives a key in its dictionaries, the last entry winning.\<close>

fun lookup_parameter :: "string \<Rightarrow> Parameter list \<Rightarrow> ParameterValue option" where
  "lookup_parameter key [] = None"
| "lookup_parameter key (ParameterFile f # ps) = lookup_parameter key ps"
| "lookup_parameter key (ParameterDict d # ps) =
     (case lookup_parameter key ps of
        Some v \<Rightarrow> Some v
      | None \<Rightarrow> map_of d key)"

subsection \<open>The launch arguments' defaults\<close>

text \<open>The default values that \<^verbatim>\<open>generate_launch_description\<close> declares.\<close>

definition default_arguments :: LaunchArguments where
  "default_arguments =
     \<lparr> config_file = '''', has_arm = ''False'', tf_prefix = '''', launch_rviz = ''False'',
       rviz_config_file = '''', depth_registered_mode = ''from_nodelets'',
       publish_point_clouds = ''false'', spot_name = '''' \<rparr>"

section \<open>Properties\<close>

subsection \<open>Lower-casing\<close>

lemma lower_char_eq_iff:
  "lower_char c = d \<longleftrightarrow>
     (if 65 \<le> (of_char c :: nat) \<and> (of_char c :: nat) \<le> 90
      then (of_char d :: nat) = of_char c + 32 else c = d)"
proof (cases "65 \<le> (of_char c :: nat) \<and> (of_char c :: nat) \<le> 90")
  case True
  then have "take_bit 8 (of_char c + 32 :: nat) = of_char c + 32"
    by (simp add: take_bit_nat_eq_self_iff)
  with True show ?thesis
    by (auto simp: lower_char_def Let_def char_of_eq_iff)
next
  case False
  then show ?thesis by (auto simp: lower_char_def Let_def)
qed

lemma lower_char_t: "lower_char c = CHR ''t'' \<longleftrightarrow> c = CHR ''t'' \<or> c = CHR ''T''"
  using of_char_eq_iff [of c "CHR ''T''", where ?'a = nat]
  by (auto simp: lower_char_eq_iff)

lemma lower_char_r: "lower_char c = CHR ''r'' \<longleftrightarrow> c = CHR ''r'' \<or> c = CHR ''R''"
  using of_char_eq_iff [of c "CHR ''R''", where ?'a = nat]
  by (auto simp: lower_char_eq_iff)

lemma lower_char_u: "lower_char c = CHR ''u'' \<longleftrightarrow> c = CHR ''u'' \<or> c = CHR ''U''"
  using of_char_eq_iff [of c "CHR ''U''", where ?'a = nat]
  by (auto simp: lower_char_eq_iff)

lemma lower_char_e: "lower_char c = CHR ''e'' \<longleftrightarrow> c = CHR ''e'' \<or> c = CHR ''E''"
  using of_char_eq_iff [of c "CHR ''E''", where ?'a = nat]
  by (auto simp: lower_char_eq_iff)

lemma lower_Nil_iff: "lower s = [] \<longleftrightarrow> s = []"
  by (simp add: lower_def)

lemma lower_Cons_iff:
  "lower s = x # w \<longleftrightarrow> (\<exists>c cs. s = c # cs \<and> lower_char c = x \<and> lower cs = w)"
  by (cases s) (auto simp: lower_def)

lemma lower_eq_true_iff:
  "lower s = ''true'' \<longleftrightarrow>
     (\<exists>a b c d. s = [a, b, c, d] \<and> (a = CHR ''t'' \<or> a = CHR ''T'') \<and>
        (b = CHR ''r'' \<or> b = CHR ''R'') \<and> (c = CHR ''u'' \<or> c = CHR ''U'') \<and>
        (d = CHR ''e'' \<or> d = CHR ''E''))"
proof -
  have "lower s = ''true'' \<longleftrightarrow>
      (\<exists>a s1. s = a # s1 \<and> lower_char a = CHR ''t'' \<and>
        (\<exists>b s2. s1 = b # s2 \<and> lower_char b = CHR ''r'' \<and>
          (\<exists>c s3. s2 = c # s3 \<and> lower_char c = CHR ''u'' \<and>
            (\<exists>d s4. s3 = d # s4 \<and> lower_char d = CHR ''e'' \<and> s4 = []))))"
    by (simp only: lower_Cons_iff lower_Nil_iff)
  also have "\<dots> \<longleftrightarrow> (\<exists>a b c d. s = [a, b, c, d] \<and> lower_char a = CHR ''t'' \<and>
      lower_char b = CHR ''r'' \<and> lower_char c = CHR ''u'' \<and> lower_char d = CHR ''e'')"
    by blast
  finally show ?thesis
    by (simp only: lower_char_t lower_char_r lower_char_u lower_char_e)
qed

lemma lower_char_idem: "lower_char (lower_char c) = lower_char c"
proof (cases "65 \<le> (of_char c :: nat) \<and> (of_char c :: nat) \<le> 90")
  case True
  then have "(of_char (char_of (of_char c + 32 :: nat)) :: nat) = of_char c + 32"
    by (simp add: of_char_of)
  with True show ?thesis
    by (simp add: lower_char_def Let_def)
next
  case False
  then show ?thesis by (auto simp: lower_char_def Let_def)
qed

lemma lower_idem: "lower (lower s) = lower s"
  by (simp add: lower_def lower_char_idem)

subsection \<open>Joined paths\<close>

lemma endswith_sep_append: "c \<noteq> [] \<Longrightarrow> endswith_sep (a @ c) = endswith_sep c"
  by (cases c rule: rev_cases) (simp_all add: endswith_sep_def)

lemma endswith_sep_last: "path \<noteq> [] \<Longrightarrow> endswith_sep path \<longleftrightarrow> last path = CHR ''/''"
  by (cases path rule: rev_cases) (simp_all add: endswith_sep_def)

lemma path_join_camera:
  assumes "a \<noteq> []" "\<not> endswith_sep a" "c \<noteq> []" "\<not> startswith_sep c" "\<not> endswith_sep c"
    "\<not> startswith_sep b"
  shows "path_join a [c, b] = a @ ''/'' @ c @ ''/'' @ b"
proof -
  have "join_step a c = a @ ''/'' @ c"
    using assms by (simp add: join_step_def)
  moreover have "\<not> endswith_sep (a @ ''/'' @ c)"
    using assms endswith_sep_append [of c "a @ ''/''"] by simp
  ultimately show ?thesis
    using assms by (simp add: path_join_def join_step_def)
qed

lemma path_join_empty_segment:
  "spot \<noteq> [] \<Longrightarrow>
   path_join spot [''''] = (if last spot = CHR ''/'' then spot else spot @ ''/'')"
  by (simp add: path_join_def join_step_def startswith_sep_def endswith_sep_last)

subsection \<open>Cameras and the two loops\<close>

lemma get_camera_sources_eq:
  "get_camera_sources arm =
     [''frontleft'', ''frontright'', ''left'', ''right'', ''back'']
     @ (if arm = ''true'' \<or> arm = ''True'' then [''hand''] else [])"
  by (simp add: get_camera_sources_def)

lemma get_camera_sources_distinct: "distinct (get_camera_sources arm)"
  by (simp add: get_camera_sources_eq)

lemma get_camera_sources_not_Nil: "get_camera_sources arm \<noteq> []"
  by (simp add: get_camera_sources_eq)

lemma camera_shape:
  assumes "camera \<in> set (get_camera_sources arm)"
  shows "camera \<noteq> [] \<and> \<not> startswith_sep camera \<and> \<not> endswith_sep camera"
  using assms
  by (auto simp: get_camera_sources_def Let_def startswith_sep_def endswith_sep_def
      split: if_splits)

lemma register_loop_eq:
  "register_loop spot cameras nodes = nodes @ map (register_node spot) cameras"
  by (induction cameras arbitrary: nodes) simp_all

lemma point_cloud_loop_eq:
  "point_cloud_loop spot cameras nodes = nodes @ map (point_cloud_node spot) cameras"
  by (induction cameras arbitrary: nodes) simp_all

lemma create_depth_registration_nodelets_eq:
  "create_depth_registration_nodelets spot arm =
     map (register_node spot) (get_camera_sources arm)"
  by (simp add: create_depth_registration_nodelets_def register_loop_eq)

lemma create_point_cloud_nodelets_eq:
  "create_point_cloud_nodelets spot arm = map (point_cloud_node spot) (get_camera_sources arm)"
  by (simp add: create_point_cloud_nodelets_def point_cloud_loop_eq)

lemma register_node_camera:
  assumes "camera \<in> set (get_camera_sources arm)"
  shows "register_node spot camera =
     \<lparr> package = ''depth_image_proc'',
       plugin = ''depth_image_proc::RegisterNode'',
       name = ''register_node_'' @ camera,
       namespace = spot,
       remappings =
         [(''depth/image_rect'', ''depth/'' @ camera @ ''/image''),
          (''depth/camera_info'', ''depth/'' @ camera @ ''/camera_info''),
          (''rgb/camera_info'', ''camera/'' @ camera @ ''/camera_info''),
          (''depth_registered/image_rect'', ''depth_registered/'' @ camera @ ''/image''),
          (''depth_registered/camera_info'',
             ''depth_registered/'' @ camera @ ''/camera_info'')] \<rparr>"
proof -
  have shape: "camera \<noteq> []" "\<not> startswith_sep camera" "\<not> endswith_sep camera"
    using camera_shape [OF assms] by simp_all
  have "path_join ''depth'' [camera, ''image''] = ''depth/'' @ camera @ ''/image''"
    and "path_join ''depth'' [camera, ''camera_info''] = ''depth/'' @ camera @ ''/camera_info''"
    and "path_join ''camera'' [camera, ''camera_info''] = ''camera/'' @ camera @ ''/camera_info''"
    and "path_join ''depth_registered'' [camera, ''image'']
           = ''depth_registered/'' @ camera @ ''/image''"
    and "path_join ''depth_registered'' [camera, ''camera_info'']
           = ''depth_registered/'' @ camera @ ''/camera_info''"
    using shape by (simp_all add: path_join_camera startswith_sep_def endswith_sep_def)
  then show ?thesis
    by (simp add: register_node_def)
qed

lemma point_cloud_node_camera:
  assumes "camera \<in> set (get_camera_sources arm)"
  shows "point_cloud_node spot camera =
     \<lparr> package = ''depth_image_proc'',
       plugin = ''depth_image_proc::PointCloudXyzrgbNode'',
       name = ''point_cloud_xyzrgb_node_'' @ camera,
       namespace = spot,
       remappings =
         [(''rgb/camera_info'', ''camera/'' @ camera @ ''/camera_info''),
          (''rgb/image_rect_color'', ''camera/'' @ camera @ ''/image''),
          (''depth_registered/image_rect'', ''depth_registered/'' @ camera @ ''/image''),
          (''points'', ''depth_registered/'' @ camera @ ''/points'')] \<rparr>"
proof -
  have shape: "camera \<noteq> []" "\<not> startswith_sep camera" "\<not> endswith_sep camera"
    using camera_shape [OF assms] by simp_all
  have "path_join ''camera'' [camera, ''camera_info''] = ''camera/'' @ camera @ ''/camera_info''"
    and "path_join ''camera'' [camera, ''image''] = ''camera/'' @ camera @ ''/image''"
    and "path_join ''depth_registered'' [camera, ''image'']
           = ''depth_registered/'' @ camera @ ''/image''"
    and "path_join ''depth_registered'' [camera, ''points'']
           = ''depth_registered/'' @ camera @ ''/points''"
    using shape by (simp_all add: path_join_camera startswith_sep_def endswith_sep_def)
  then show ?thesis
    by (simp add: point_cloud_node_def)
qed

lemma plugin_register_node [simp]: "plugin (register_node spot camera) = ''depth_image_proc::RegisterNode''"
  by (simp add: register_node_def)

lemma plugin_point_cloud_node [simp]:
  "plugin (point_cloud_node spot camera) = ''depth_image_proc::PointCloudXyzrgbNode''"
  by (simp add: point_cloud_node_def)

lemma name_register_node [simp]: "name (register_node spot camera) = ''register_node_'' @ camera"
  by (simp add: register_node_def)

lemma name_point_cloud_node [simp]:
  "name (point_cloud_node spot camera) = ''point_cloud_xyzrgb_node_'' @ camera"
  by (simp add: point_cloud_node_def)

lemma namespace_register_node [simp]: "namespace (register_node spot camera) = spot"
  by (simp add: register_node_def)

lemma namespace_point_cloud_node [simp]: "namespace (point_cloud_node spot camera) = spot"
  by (simp add: point_cloud_node_def)

lemma composable_node_descriptions_eq:
  "composable_node_descriptions (launch_setup args) =
     (if resolve_mode (depth_registered_mode args) = FROM_NODELETS
      then map (register_node (spot_name args)) (get_camera_sources (has_arm args)) else [])
     @ (if resolve_point_cloud_policy (point_clouds_requested (publish_point_clouds args))
             (resolve_mode (depth_registered_mode args))
        then map (point_cloud_node (spot_name args)) (get_camera_sources (has_arm args)) else [])"
  by (simp add: launch_setup_def Let_def create_depth_registration_nodelets_eq
      create_point_cloud_nodelets_eq)

lemma filter_register_nodes:
  "filter (\<lambda>node. plugin node = ''depth_image_proc::RegisterNode'')
     (composable_node_descriptions (launch_setup args)) =
     (if resolve_mode (depth_registered_mode args) = FROM_NODELETS
      then map (register_node (spot_name args)) (get_camera_sources (has_arm args)) else [])"
  by (simp add: composable_node_descriptions_eq filter_map comp_def)

lemma filter_point_cloud_nodes:
  "filter (\<lambda>node. plugin node = ''depth_image_proc::PointCloudXyzrgbNode'')
     (composable_node_descriptions (launch_setup args)) =
     (if resolve_point_cloud_policy (point_clouds_requested (publish_point_clouds args))
           (resolve_mode (depth_registered_mode args))
      then map (point_cloud_node (spot_name args)) (get_camera_sources (has_arm args)) else [])"
  by (simp add: composable_node_descriptions_eq filter_map comp_def)

lemma length_filter_one:
  "distinct xs \<Longrightarrow> x \<in> set xs \<Longrightarrow> length (filter (\<lambda>y. y = x) xs) = 1"
  by (induction xs) (auto simp: filter_empty_conv)

section \<open>The claims\<close>

text \<open>
  C1. The resolved point-cloud policy is the request and a mode other than
  \<open>DISABLE\<close>: with the mode \<open>DISABLE\<close> it is false whatever the request, and then
  the composable nodes of the container have no \<^verbatim>\<open>PointCloudXyzrgbNode\<close> among them
  (the list is empty); in general such nodes are there exactly when the request is true
  and the mode is not \<open>DISABLE\<close>.
\<close>

theorem point_cloud_policy:
  "resolve_point_cloud_policy requested mode = (requested \<and> mode \<noteq> DISABLE)
   \<and> \<not> resolve_point_cloud_policy requested DISABLE
   \<and> (resolve_mode (depth_registered_mode args) = DISABLE \<longrightarrow>
        filter (\<lambda>node. plugin node = ''depth_image_proc::PointCloudXyzrgbNode'')
          (composable_node_descriptions (launch_setup args)) = []
        \<and> composable_node_descriptions (launch_setup args) = [])
   \<and> (filter (\<lambda>node. plugin node = ''depth_image_proc::PointCloudXyzrgbNode'')
          (composable_node_descriptions (launch_setup args)) \<noteq> []
        \<longleftrightarrow> point_clouds_requested (publish_point_clouds args)
            \<and> resolve_mode (depth_registered_mode args) \<noteq> DISABLE)"
proof -
  have policy: "resolve_point_cloud_policy r m = (r \<and> m \<noteq> DISABLE)" for r m
    by (simp add: resolve_point_cloud_policy_def)
  have disabled: "composable_node_descriptions (launch_setup args) = []"
    if "resolve_mode (depth_registered_mode args) = DISABLE"
    using that by (simp add: composable_node_descriptions_eq policy)
  have present: "filter (\<lambda>node. plugin node = ''depth_image_proc::PointCloudXyzrgbNode'')
          (composable_node_descriptions (launch_setup args)) \<noteq> []
        \<longleftrightarrow> point_clouds_requested (publish_point_clouds args)
            \<and> resolve_mode (depth_registered_mode args) \<noteq> DISABLE"
    by (simp add: filter_point_cloud_nodes policy get_camera_sources_not_Nil)
  show ?thesis
    using policy disabled present by simp
qed

theorem point_cloud_policy_witness:
  "resolve_mode
     (depth_registered_mode
        (default_arguments\<lparr>depth_registered_mode := ''disable'', publish_point_clouds := ''true''\<rparr>))
     = DISABLE
   \<and> point_clouds_requested
        (publish_point_clouds
          (default_arguments\<lparr>depth_registered_mode := ''disable'', publish_point_clouds := ''true''\<rparr>))
   \<and> \<not> resolve_point_cloud_policy True DISABLE
   \<and> composable_node_descriptions
        (launch_setup
          (default_arguments\<lparr>depth_registered_mode := ''disable'', publish_point_clouds := ''true''\<rparr>))
       = []"
proof -
  have mode: "resolve_mode ''disable'' = DISABLE"
    by code_simp
  have requested: "point_clouds_requested ''true''"
    by code_simp
  show ?thesis
    using mode requested
      point_cloud_policy [of True DISABLE
        "default_arguments\<lparr>depth_registered_mode := ''disable'', publish_point_clouds := ''true''\<rparr>"]
    by simp
qed

text \<open>
  C2. The mode is a total function of the launch argument: the lower-cased argument
  \<^verbatim>\<open>from_spot\<close> gives \<open>FROM_SPOT\<close>, \<^verbatim>\<open>from_nodelets\<close> gives \<open>FROM_NODELETS\<close>,
  and every other string, \<^verbatim>\<open>disable\<close> and the empty string among them, gives
  \<open>DISABLE\<close>. Only the lower-cased argument counts, so the recognised words are
  matched in any casing. The source has no statement that raises on this path, and the
  model has no error value.
\<close>

theorem mode_resolution:
  "resolve_mode raw =
     (if lower raw = ''from_spot'' then FROM_SPOT
      else if lower raw = ''from_nodelets'' then FROM_NODELETS
      else DISABLE)
   \<and> (resolve_mode raw = FROM_SPOT \<longleftrightarrow> lower raw = ''from_spot'')
   \<and> (resolve_mode raw = FROM_NODELETS \<longleftrightarrow> lower raw = ''from_nodelets'')
   \<and> (resolve_mode raw = DISABLE \<longleftrightarrow>
        lower raw \<noteq> ''from_spot'' \<and> lower raw \<noteq> ''from_nodelets'')
   \<and> resolve_mode (lower raw) = resolve_mode raw
   \<and> resolve_mode ''from_spot'' = FROM_SPOT
   \<and> resolve_mode ''from_nodelets'' = FROM_NODELETS
   \<and> resolve_mode ''disable'' = DISABLE
   \<and> resolve_mode '''' = DISABLE
   \<and> resolve_mode ''From_Nodelets'' = FROM_NODELETS
   \<and> resolve_mode ''FROM_SPOT'' = FROM_SPOT
   \<and> resolve_mode ''DISABLE'' = DISABLE
   \<and> resolve_mode ''unexpected'' = DISABLE"
proof -
  have general: "resolve_mode raw =
     (if lower raw = ''from_spot'' then FROM_SPOT
      else if lower raw = ''from_nodelets'' then FROM_NODELETS
      else DISABLE)"
    by (simp add: resolve_mode_def Let_def)
  have casing: "resolve_mode (lower raw) = resolve_mode raw"
    by (simp add: resolve_mode_def lower_idem)
  have examples:
    "resolve_mode ''from_spot'' = FROM_SPOT"
    "resolve_mode ''from_nodelets'' = FROM_NODELETS"
    "resolve_mode ''disable'' = DISABLE"
    "resolve_mode '''' = DISABLE"
    "resolve_mode ''From_Nodelets'' = FROM_NODELETS"
    "resolve_mode ''FROM_SPOT'' = FROM_SPOT"
    "resolve_mode ''DISABLE'' = DISABLE"
    "resolve_mode ''unexpected'' = DISABLE"
    by code_simp+
  show ?thesis
    using casing examples by (simp add: general)
qed

theorem mode_resolution_witness:
  "resolve_mode ''From_Spot'' = FROM_SPOT \<and> lower ''From_Spot'' = ''from_spot''
   \<and> resolve_mode ''from spot'' = DISABLE"
proof -
  have "lower ''From_Spot'' = ''from_spot''" "lower ''from spot'' = ''from spot''"
    by code_simp+
  then show ?thesis
    using mode_resolution [of "''From_Spot''"] mode_resolution [of "''from spot''"]
    by simp
qed

text \<open>
  C3, as the code has it. The parameters of the driver node are the configuration file
  and the name of the robot, followed by the entry \<^verbatim>\<open>publish_depth_registered\<close> with
  the value false exactly when the mode is not \<open>FROM_SPOT\<close>. With the mode
  \<open>FROM_SPOT\<close> the launch file adds no such entry: the value is not suppressed, and is
  left to the configuration file and the driver.
\<close>

theorem driver_parameters:
  "spot_driver_parameters (launch_setup args) =
     [ParameterFile (config_file args), ParameterDict [(''spot_name'', Text (spot_name args))]]
     @ (if resolve_mode (depth_registered_mode args) = FROM_SPOT then []
        else [ParameterDict [(''publish_depth_registered'', Flag False)]])
   \<and> lookup_parameter ''publish_depth_registered'' (spot_driver_parameters (launch_setup args)) =
       (if resolve_mode (depth_registered_mode args) = FROM_SPOT then None
        else Some (Flag False))"
  by (simp add: launch_setup_def Let_def spot_driver_params_def)

theorem driver_parameters_witness:
  "spot_driver_parameters (launch_setup default_arguments) =
     [ParameterFile '''', ParameterDict [(''spot_name'', Text '''')],
      ParameterDict [(''publish_depth_registered'', Flag False)]]
   \<and> lookup_parameter ''publish_depth_registered''
        (spot_driver_parameters (launch_setup default_arguments)) = Some (Flag False)"
proof -
  have "resolve_mode ''from_nodelets'' = FROM_NODELETS"
    by code_simp
  then show ?thesis
    using driver_parameters [of default_arguments]
    by (simp add: default_arguments_def)
qed

text \<open>
  C3, as the claim has it, fails for the mode \<open>FROM_SPOT\<close>: the parameter list is the
  two base parameters, not these followed by an entry with the value true, and no
  dictionary of the list has the key \<^verbatim>\<open>publish_depth_registered\<close>.
\<close>

theorem driver_parameters_counterexample:
  "resolve_mode ''from_spot'' = FROM_SPOT
   \<and> spot_driver_parameters
        (launch_setup
          \<lparr> config_file = ''spot.yaml'', has_arm = ''False'', tf_prefix = '''',
            launch_rviz = ''False'', rviz_config_file = '''',
            depth_registered_mode = ''from_spot'', publish_point_clouds = ''false'',
            spot_name = ''spot1'' \<rparr>)
       = [ParameterFile ''spot.yaml'', ParameterDict [(''spot_name'', Text ''spot1'')]]
   \<and> spot_driver_parameters
        (launch_setup
          \<lparr> config_file = ''spot.yaml'', has_arm = ''False'', tf_prefix = '''',
            launch_rviz = ''False'', rviz_config_file = '''',
            depth_registered_mode = ''from_spot'', publish_point_clouds = ''false'',
            spot_name = ''spot1'' \<rparr>)
       \<noteq> [ParameterFile ''spot.yaml'', ParameterDict [(''spot_name'', Text ''spot1'')],
          ParameterDict [(''publish_depth_registered'', Flag True)]]
   \<and> lookup_parameter ''publish_depth_registered''
        (spot_driver_parameters
          (launch_setup
            \<lparr> config_file = ''spot.yaml'', has_arm = ''False'', tf_prefix = '''',
              launch_rviz = ''False'', rviz_config_file = '''',
              depth_registered_mode = ''from_spot'', publish_point_clouds = ''false'',
              spot_name = ''spot1'' \<rparr>))
       \<noteq> Some (Flag True)"
proof -
  have "resolve_mode ''from_spot'' = FROM_SPOT"
    by code_simp
  then show ?thesis
    by (simp add: launch_setup_def Let_def spot_driver_params_def)
qed

text \<open>
  C4. The camera sources are the five body cameras in the order \<^verbatim>\<open>frontleft\<close>,
  \<^verbatim>\<open>frontright\<close>, \<^verbatim>\<open>left\<close>, \<^verbatim>\<open>right\<close>, \<^verbatim>\<open>back\<close>, followed by
  \<^verbatim>\<open>hand\<close> exactly when the robot has an arm; five or six elements, none of them
  twice. The function has no error value and reads nothing but its argument.
\<close>

theorem camera_sources:
  "get_camera_sources arm =
     [''frontleft'', ''frontright'', ''left'', ''right'', ''back'']
     @ (if arm = ''true'' \<or> arm = ''True'' then [''hand''] else [])
   \<and> length (get_camera_sources arm) = (if arm = ''true'' \<or> arm = ''True'' then 6 else 5)
   \<and> distinct (get_camera_sources arm)
   \<and> get_camera_sources ''False'' = [''frontleft'', ''frontright'', ''left'', ''right'', ''back'']
   \<and> get_camera_sources ''True''
       = [''frontleft'', ''frontright'', ''left'', ''right'', ''back'', ''hand'']"
  by (simp add: get_camera_sources_def)

theorem camera_sources_witness:
  "get_camera_sources ''true''
     = [''frontleft'', ''frontright'', ''left'', ''right'', ''back'', ''hand'']
   \<and> length (get_camera_sources ''true'') = 6
   \<and> distinct (get_camera_sources ''true'')"
  using camera_sources [of "''true''"] by simp

text \<open>
  C5. For the cameras of \<^verbatim>\<open>get_camera_sources\<close>, in their order, the registration
  builder gives one \<^verbatim>\<open>depth_image_proc::RegisterNode\<close> each, named
  \<^verbatim>\<open>register_node_\<close> and the camera, with exactly the five remappings of the claim;
  every camera has exactly one node of its name. The container of \<^verbatim>\<open>launch_setup\<close>
  has these nodes, and no other \<^verbatim>\<open>RegisterNode\<close>, when the mode is
  \<open>FROM_NODELETS\<close>, and no \<^verbatim>\<open>RegisterNode\<close> otherwise.
\<close>

theorem depth_registration_nodes:
  "create_depth_registration_nodelets spot arm =
     map (\<lambda>camera.
           \<lparr> package = ''depth_image_proc'',
             plugin = ''depth_image_proc::RegisterNode'',
             name = ''register_node_'' @ camera,
             namespace = spot,
             remappings =
               [(''depth/image_rect'', ''depth/'' @ camera @ ''/image''),
                (''depth/camera_info'', ''depth/'' @ camera @ ''/camera_info''),
                (''rgb/camera_info'', ''camera/'' @ camera @ ''/camera_info''),
                (''depth_registered/image_rect'', ''depth_registered/'' @ camera @ ''/image''),
                (''depth_registered/camera_info'',
                   ''depth_registered/'' @ camera @ ''/camera_info'')] \<rparr>)
       (get_camera_sources arm)
   \<and> (\<forall>node \<in> set (create_depth_registration_nodelets spot arm).
         length (remappings node) = 5)
   \<and> (\<forall>camera \<in> set (get_camera_sources arm).
         length (filter (\<lambda>node. name node = ''register_node_'' @ camera)
                   (create_depth_registration_nodelets spot arm)) = 1)
   \<and> create_depth_registration_nodelets spot arm \<noteq> []
   \<and> filter (\<lambda>node. plugin node = ''depth_image_proc::RegisterNode'')
         (composable_node_descriptions (launch_setup args))
       = (if resolve_mode (depth_registered_mode args) = FROM_NODELETS
          then create_depth_registration_nodelets (spot_name args) (has_arm args) else [])"
proof -
  have nodes: "create_depth_registration_nodelets spot arm =
     map (\<lambda>camera.
           \<lparr> package = ''depth_image_proc'',
             plugin = ''depth_image_proc::RegisterNode'',
             name = ''register_node_'' @ camera,
             namespace = spot,
             remappings =
               [(''depth/image_rect'', ''depth/'' @ camera @ ''/image''),
                (''depth/camera_info'', ''depth/'' @ camera @ ''/camera_info''),
                (''rgb/camera_info'', ''camera/'' @ camera @ ''/camera_info''),
                (''depth_registered/image_rect'', ''depth_registered/'' @ camera @ ''/image''),
                (''depth_registered/camera_info'',
                   ''depth_registered/'' @ camera @ ''/camera_info'')] \<rparr>)
       (get_camera_sources arm)"
    unfolding create_depth_registration_nodelets_eq
    by (rule map_cong [OF refl]) (rule register_node_camera)
  have five: "\<forall>node \<in> set (create_depth_registration_nodelets spot arm).
      length (remappings node) = 5"
    by (simp add: create_depth_registration_nodelets_eq register_node_def)
  have one: "\<forall>camera \<in> set (get_camera_sources arm).
      length (filter (\<lambda>node. name node = ''register_node_'' @ camera)
                (create_depth_registration_nodelets spot arm)) = 1"
    by (simp add: create_depth_registration_nodelets_eq filter_map comp_def
        length_filter_one get_camera_sources_distinct)
  have some: "create_depth_registration_nodelets spot arm \<noteq> []"
    by (simp add: create_depth_registration_nodelets_eq get_camera_sources_not_Nil)
  have container: "filter (\<lambda>node. plugin node = ''depth_image_proc::RegisterNode'')
         (composable_node_descriptions (launch_setup args))
       = (if resolve_mode (depth_registered_mode args) = FROM_NODELETS
          then create_depth_registration_nodelets (spot_name args) (has_arm args) else [])"
    by (simp add: filter_register_nodes create_depth_registration_nodelets_eq)
  from nodes five one some container show ?thesis
    by (intro conjI)
qed

theorem depth_registration_nodes_witness:
  "create_depth_registration_nodelets ''spot1'' ''False'' =
     [\<lparr> package = ''depth_image_proc'', plugin = ''depth_image_proc::RegisterNode'',
        name = ''register_node_frontleft'', namespace = ''spot1'',
        remappings =
          [(''depth/image_rect'', ''depth/frontleft/image''),
           (''depth/camera_info'', ''depth/frontleft/camera_info''),
           (''rgb/camera_info'', ''camera/frontleft/camera_info''),
           (''depth_registered/image_rect'', ''depth_registered/frontleft/image''),
           (''depth_registered/camera_info'', ''depth_registered/frontleft/camera_info'')] \<rparr>,
      \<lparr> package = ''depth_image_proc'', plugin = ''depth_image_proc::RegisterNode'',
        name = ''register_node_frontright'', namespace = ''spot1'',
        remappings =
          [(''depth/image_rect'', ''depth/frontright/image''),
           (''depth/camera_info'', ''depth/frontright/camera_info''),
           (''rgb/camera_info'', ''camera/frontright/camera_info''),
           (''depth_registered/image_rect'', ''depth_registered/frontright/image''),
           (''depth_registered/camera_info'', ''depth_registered/frontright/camera_info'')] \<rparr>,
      \<lparr> package = ''depth_image_proc'', plugin = ''depth_image_proc::RegisterNode'',
        name = ''register_node_left'', namespace = ''spot1'',
        remappings =
          [(''depth/image_rect'', ''depth/left/image''),
           (''depth/camera_info'', ''depth/left/camera_info''),
           (''rgb/camera_info'', ''camera/left/camera_info''),
           (''depth_registered/image_rect'', ''depth_registered/left/image''),
           (''depth_registered/camera_info'', ''depth_registered/left/camera_info'')] \<rparr>,
      \<lparr> package = ''depth_image_proc'', plugin = ''depth_image_proc::RegisterNode'',
        name = ''register_node_right'', namespace = ''spot1'',
        remappings =
          [(''depth/image_rect'', ''depth/right/image''),
           (''depth/camera_info'', ''depth/right/camera_info''),
           (''rgb/camera_info'', ''camera/right/camera_info''),
           (''depth_registered/image_rect'', ''depth_registered/right/image''),
           (''depth_registered/camera_info'', ''depth_registered/right/camera_info'')] \<rparr>,
      \<lparr> package = ''depth_image_proc'', plugin = ''depth_image_proc::RegisterNode'',
        name = ''register_node_back'', namespace = ''spot1'',
        remappings =
          [(''depth/image_rect'', ''depth/back/image''),
           (''depth/camera_info'', ''depth/back/camera_info''),
           (''rgb/camera_info'', ''camera/back/camera_info''),
           (''depth_registered/image_rect'', ''depth_registered/back/image''),
           (''depth_registered/camera_info'', ''depth_registered/back/camera_info'')] \<rparr>]
   \<and> ''left'' \<in> set (get_camera_sources ''False'')
   \<and> length (filter (\<lambda>node. name node = ''register_node_left'')
         (create_depth_registration_nodelets ''spot1'' ''False'')) = 1
   \<and> filter (\<lambda>node. plugin node = ''depth_image_proc::RegisterNode'')
         (composable_node_descriptions (launch_setup default_arguments))
       = create_depth_registration_nodelets '''' ''False''"
proof -
  have mode: "resolve_mode ''from_nodelets'' = FROM_NODELETS"
    by code_simp
  have cameras: "get_camera_sources ''False''
      = [''frontleft'', ''frontright'', ''left'', ''right'', ''back'']"
    by (simp add: get_camera_sources_def)
  show ?thesis
    using depth_registration_nodes [of "''spot1''" "''False''" default_arguments] mode
    unfolding cameras
    by (simp add: default_arguments_def)
qed

text \<open>
  C6. For the cameras of \<^verbatim>\<open>get_camera_sources\<close>, in their order, the point-cloud
  builder gives one \<^verbatim>\<open>depth_image_proc::PointCloudXyzrgbNode\<close> each, named
  \<^verbatim>\<open>point_cloud_xyzrgb_node_\<close> and the camera, with exactly the four remappings of the
  claim; every camera has exactly one node of its name. The container of
  \<^verbatim>\<open>launch_setup\<close> has these nodes, and no other \<^verbatim>\<open>PointCloudXyzrgbNode\<close>, when the
  resolved point-cloud policy is true, and no \<^verbatim>\<open>PointCloudXyzrgbNode\<close> otherwise.
\<close>

theorem point_cloud_nodes:
  "create_point_cloud_nodelets spot arm =
     map (\<lambda>camera.
           \<lparr> package = ''depth_image_proc'',
             plugin = ''depth_image_proc::PointCloudXyzrgbNode'',
             name = ''point_cloud_xyzrgb_node_'' @ camera,
             namespace = spot,
             remappings =
               [(''rgb/camera_info'', ''camera/'' @ camera @ ''/camera_info''),
                (''rgb/image_rect_color'', ''camera/'' @ camera @ ''/image''),
                (''depth_registered/image_rect'', ''depth_registered/'' @ camera @ ''/image''),
                (''points'', ''depth_registered/'' @ camera @ ''/points'')] \<rparr>)
       (get_camera_sources arm)
   \<and> (\<forall>node \<in> set (create_point_cloud_nodelets spot arm). length (remappings node) = 4)
   \<and> (\<forall>camera \<in> set (get_camera_sources arm).
         length (filter (\<lambda>node. name node = ''point_cloud_xyzrgb_node_'' @ camera)
                   (create_point_cloud_nodelets spot arm)) = 1)
   \<and> create_point_cloud_nodelets spot arm \<noteq> []
   \<and> filter (\<lambda>node. plugin node = ''depth_image_proc::PointCloudXyzrgbNode'')
         (composable_node_descriptions (launch_setup args))
       = (if resolve_point_cloud_policy (point_clouds_requested (publish_point_clouds args))
               (resolve_mode (depth_registered_mode args))
          then create_point_cloud_nodelets (spot_name args) (has_arm args) else [])"
proof -
  have nodes: "create_point_cloud_nodelets spot arm =
     map (\<lambda>camera.
           \<lparr> package = ''depth_image_proc'',
             plugin = ''depth_image_proc::PointCloudXyzrgbNode'',
             name = ''point_cloud_xyzrgb_node_'' @ camera,
             namespace = spot,
             remappings =
               [(''rgb/camera_info'', ''camera/'' @ camera @ ''/camera_info''),
                (''rgb/image_rect_color'', ''camera/'' @ camera @ ''/image''),
                (''depth_registered/image_rect'', ''depth_registered/'' @ camera @ ''/image''),
                (''points'', ''depth_registered/'' @ camera @ ''/points'')] \<rparr>)
       (get_camera_sources arm)"
    unfolding create_point_cloud_nodelets_eq
    by (rule map_cong [OF refl]) (rule point_cloud_node_camera)
  have four: "\<forall>node \<in> set (create_point_cloud_nodelets spot arm).
      length (remappings node) = 4"
    by (simp add: create_point_cloud_nodelets_eq point_cloud_node_def)
  have one: "\<forall>camera \<in> set (get_camera_sources arm).
      length (filter (\<lambda>node. name node = ''point_cloud_xyzrgb_node_'' @ camera)
                (create_point_cloud_nodelets spot arm)) = 1"
    by (simp add: create_point_cloud_nodelets_eq filter_map comp_def
        length_filter_one get_camera_sources_distinct)
  have some: "create_point_cloud_nodelets spot arm \<noteq> []"
    by (simp add: create_point_cloud_nodelets_eq get_camera_sources_not_Nil)
  have container: "filter (\<lambda>node. plugin node = ''depth_image_proc::PointCloudXyzrgbNode'')
         (composable_node_descriptions (launch_setup args))
       = (if resolve_point_cloud_policy (point_clouds_requested (publish_point_clouds args))
               (resolve_mode (depth_registered_mode args))
          then create_point_cloud_nodelets (spot_name args) (has_arm args) else [])"
    by (simp add: filter_point_cloud_nodes create_point_cloud_nodelets_eq)
  from nodes four one some container show ?thesis
    by (intro conjI)
qed

theorem point_cloud_nodes_witness:
  "create_point_cloud_nodelets ''spot1'' ''False'' =
     [\<lparr> package = ''depth_image_proc'', plugin = ''depth_image_proc::PointCloudXyzrgbNode'',
        name = ''point_cloud_xyzrgb_node_frontleft'', namespace = ''spot1'',
        remappings =
          [(''rgb/camera_info'', ''camera/frontleft/camera_info''),
           (''rgb/image_rect_color'', ''camera/frontleft/image''),
           (''depth_registered/image_rect'', ''depth_registered/frontleft/image''),
           (''points'', ''depth_registered/frontleft/points'')] \<rparr>,
      \<lparr> package = ''depth_image_proc'', plugin = ''depth_image_proc::PointCloudXyzrgbNode'',
        name = ''point_cloud_xyzrgb_node_frontright'', namespace = ''spot1'',
        remappings =
          [(''rgb/camera_info'', ''camera/frontright/camera_info''),
           (''rgb/image_rect_color'', ''camera/frontright/image''),
           (''depth_registered/image_rect'', ''depth_registered/frontright/image''),
           (''points'', ''depth_registered/frontright/points'')] \<rparr>,
      \<lparr> package = ''depth_image_proc'', plugin = ''depth_image_proc::PointCloudXyzrgbNode'',
        name = ''point_cloud_xyzrgb_node_left'', namespace = ''spot1'',
        remappings =
          [(''rgb/camera_info'', ''camera/left/camera_info''),
           (''rgb/image_rect_color'', ''camera/left/image''),
           (''depth_registered/image_rect'', ''depth_registered/left/image''),
           (''points'', ''depth_registered/left/points'')] \<rparr>,
      \<lparr> package = ''depth_image_proc'', plugin = ''depth_image_proc::PointCloudXyzrgbNode'',
        name = ''point_cloud_xyzrgb_node_right'', namespace = ''spot1'',
        remappings =
          [(''rgb/camera_info'', ''camera/right/camera_info''),
           (''rgb/image_rect_color'', ''camera/right/image''),
           (''depth_registered/image_rect'', ''depth_registered/right/image''),
           (''points'', ''depth_registered/right/points'')] \<rparr>,
      \<lparr> package = ''depth_image_proc'', plugin = ''depth_image_proc::PointCloudXyzrgbNode'',
        name = ''point_cloud_xyzrgb_node_back'', namespace = ''spot1'',
        remappings =
          [(''rgb/camera_info'', ''camera/back/camera_info''),
           (''rgb/image_rect_color'', ''camera/back/image''),
           (''depth_registered/image_rect'', ''depth_registered/back/image''),
           (''points'', ''depth_registered/back/points'')] \<rparr>]
   \<and> ''back'' \<in> set (get_camera_sources ''False'')
   \<and> length (filter (\<lambda>node. name node = ''point_cloud_xyzrgb_node_back'')
         (create_point_cloud_nodelets ''spot1'' ''False'')) = 1
   \<and> filter (\<lambda>node. plugin node = ''depth_image_proc::PointCloudXyzrgbNode'')
         (composable_node_descriptions
            (launch_setup (default_arguments\<lparr>publish_point_clouds := ''True''\<rparr>)))
       = create_point_cloud_nodelets '''' ''False''"
proof -
  have mode: "resolve_mode ''from_nodelets'' = FROM_NODELETS"
    by code_simp
  have requested: "point_clouds_requested ''True''"
    by code_simp
  have cameras: "get_camera_sources ''False''
      = [''frontleft'', ''frontright'', ''left'', ''right'', ''back'']"
    by (simp add: get_camera_sources_def)
  show ?thesis
    using point_cloud_nodes [of "''spot1''" "''False''"
        "default_arguments\<lparr>publish_point_clouds := ''True''\<rparr>"] mode requested
    unfolding cameras
    by (simp add: default_arguments_def resolve_point_cloud_policy_def)
qed

text \<open>
  C7. The composable nodes of the container are the registration nodes (none unless
  the mode is \<open>FROM_NODELETS\<close>) followed by the point-cloud nodes (none unless the
  resolved policy is true); each builder gives one node for each of the five or six
  cameras. So there are twelve nodes for \<open>FROM_NODELETS\<close>, point clouds and an arm, and
  five for \<open>FROM_SPOT\<close>, point clouds and no arm.
\<close>

theorem container_nodes:
  "composable_node_descriptions (launch_setup args) =
     (if resolve_mode (depth_registered_mode args) = FROM_NODELETS
      then create_depth_registration_nodelets (spot_name args) (has_arm args) else [])
     @ (if resolve_point_cloud_policy (point_clouds_requested (publish_point_clouds args))
             (resolve_mode (depth_registered_mode args))
        then create_point_cloud_nodelets (spot_name args) (has_arm args) else [])
   \<and> length (create_depth_registration_nodelets spot arm)
       = (if arm = ''true'' \<or> arm = ''True'' then 6 else 5)
   \<and> length (create_point_cloud_nodelets spot arm)
       = (if arm = ''true'' \<or> arm = ''True'' then 6 else 5)
   \<and> (resolve_mode (depth_registered_mode args) = FROM_NODELETS
        \<and> point_clouds_requested (publish_point_clouds args)
        \<and> (has_arm args = ''true'' \<or> has_arm args = ''True'')
        \<longrightarrow> length (composable_node_descriptions (launch_setup args)) = 12)
   \<and> (resolve_mode (depth_registered_mode args) = FROM_SPOT
        \<and> point_clouds_requested (publish_point_clouds args)
        \<and> has_arm args \<noteq> ''true'' \<and> has_arm args \<noteq> ''True''
        \<longrightarrow> length (composable_node_descriptions (launch_setup args)) = 5)"
proof -
  have parts: "composable_node_descriptions (launch_setup args) =
     (if resolve_mode (depth_registered_mode args) = FROM_NODELETS
      then create_depth_registration_nodelets (spot_name args) (has_arm args) else [])
     @ (if resolve_point_cloud_policy (point_clouds_requested (publish_point_clouds args))
             (resolve_mode (depth_registered_mode args))
        then create_point_cloud_nodelets (spot_name args) (has_arm args) else [])"
    by (simp add: launch_setup_def Let_def)
  have registration: "length (create_depth_registration_nodelets s a)
       = (if a = ''true'' \<or> a = ''True'' then 6 else 5)" for s a
    by (simp add: create_depth_registration_nodelets_eq get_camera_sources_eq)
  have point_cloud: "length (create_point_cloud_nodelets s a)
       = (if a = ''true'' \<or> a = ''True'' then 6 else 5)" for s a
    by (simp add: create_point_cloud_nodelets_eq get_camera_sources_eq)
  have twelve: "length (composable_node_descriptions (launch_setup args)) = 12"
    if "resolve_mode (depth_registered_mode args) = FROM_NODELETS"
      "point_clouds_requested (publish_point_clouds args)"
      "has_arm args = ''true'' \<or> has_arm args = ''True''"
    using that by (simp add: parts registration point_cloud resolve_point_cloud_policy_def)
  have five: "length (composable_node_descriptions (launch_setup args)) = 5"
    if "resolve_mode (depth_registered_mode args) = FROM_SPOT"
      "point_clouds_requested (publish_point_clouds args)"
      "has_arm args \<noteq> ''true''" "has_arm args \<noteq> ''True''"
    using that by (simp add: parts registration point_cloud resolve_point_cloud_policy_def)
  from parts registration point_cloud twelve five show ?thesis
    by blast
qed

theorem container_nodes_witness:
  "resolve_mode ''from_nodelets'' = FROM_NODELETS
   \<and> resolve_mode ''from_spot'' = FROM_SPOT
   \<and> point_clouds_requested ''true''
   \<and> length (composable_node_descriptions
        (launch_setup (default_arguments\<lparr>has_arm := ''True'', publish_point_clouds := ''true''\<rparr>)))
       = 12
   \<and> length (composable_node_descriptions
        (launch_setup
          (default_arguments\<lparr>depth_registered_mode := ''from_spot'',
             publish_point_clouds := ''true''\<rparr>)))
       = 5"
proof -
  have mode: "resolve_mode ''from_nodelets'' = FROM_NODELETS" "resolve_mode ''from_spot'' = FROM_SPOT"
    by code_simp+
  have requested: "point_clouds_requested ''true''"
    by code_simp
  show ?thesis
    using mode requested
      container_nodes [of "default_arguments\<lparr>has_arm := ''True'', publish_point_clouds := ''true''\<rparr>"]
      container_nodes [of "default_arguments\<lparr>depth_registered_mode := ''from_spot'',
             publish_point_clouds := ''true''\<rparr>"]
    by (simp add: default_arguments_def resolve_point_cloud_policy_def)
qed

text \<open>
  C8, as the code has it. With an empty \<^verbatim>\<open>tf_prefix\<close> and a non-empty
  \<^verbatim>\<open>spot_name\<close> the prefix is the path joined from the name and the empty segment:
  the name followed by a slash when the name does not end in a slash, and the name itself
  when it does. In every other case the given \<^verbatim>\<open>tf_prefix\<close> is used unchanged.
\<close>

theorem tf_prefix_rule:
  "xacro_tf_prefix (launch_setup args) =
     (if tf_prefix args = [] \<and> spot_name args \<noteq> []
      then (if last (spot_name args) = CHR ''/'' then spot_name args
            else spot_name args @ ''/'')
      else tf_prefix args)
   \<and> (tf_prefix args = [] \<and> spot_name args \<noteq> [] \<and> last (spot_name args) \<noteq> CHR ''/''
        \<longrightarrow> xacro_tf_prefix (launch_setup args) = spot_name args @ ''/'')
   \<and> (tf_prefix args \<noteq> [] \<or> spot_name args = []
        \<longrightarrow> xacro_tf_prefix (launch_setup args) = tf_prefix args)"
  by (simp add: launch_setup_def Let_def resolve_tf_prefix_def path_join_empty_segment)

theorem tf_prefix_rule_witness:
  "xacro_tf_prefix (launch_setup (default_arguments\<lparr>spot_name := ''spot1''\<rparr>)) = ''spot1/''
   \<and> xacro_tf_prefix
        (launch_setup (default_arguments\<lparr>tf_prefix := ''custom'', spot_name := ''spot1''\<rparr>))
       = ''custom''
   \<and> xacro_tf_prefix (launch_setup default_arguments) = ''''"
  using tf_prefix_rule [of "default_arguments\<lparr>spot_name := ''spot1''\<rparr>"]
    tf_prefix_rule [of "default_arguments\<lparr>tf_prefix := ''custom'', spot_name := ''spot1''\<rparr>"]
    tf_prefix_rule [of default_arguments]
  by (simp add: default_arguments_def)

text \<open>
  C8, as the claim has it, fails for a name that ends in a slash. For the root namespace
  \<^verbatim>\<open>/\<close> and an empty \<^verbatim>\<open>tf_prefix\<close> the joined path is \<^verbatim>\<open>/\<close>, not the name
  followed by a slash.
\<close>

theorem tf_prefix_rule_counterexample:
  "xacro_tf_prefix
     (launch_setup
       \<lparr> config_file = '''', has_arm = ''False'', tf_prefix = '''', launch_rviz = ''False'',
         rviz_config_file = '''', depth_registered_mode = ''from_nodelets'',
         publish_point_clouds = ''false'', spot_name = ''/'' \<rparr>)
     = ''/''
   \<and> xacro_tf_prefix
     (launch_setup
       \<lparr> config_file = '''', has_arm = ''False'', tf_prefix = '''', launch_rviz = ''False'',
         rviz_config_file = '''', depth_registered_mode = ''from_nodelets'',
         publish_point_clouds = ''false'', spot_name = ''/'' \<rparr>)
     \<noteq> ''/'' @ ''/''"
  by (simp add: launch_setup_def Let_def resolve_tf_prefix_def path_join_def join_step_def
      startswith_sep_def endswith_sep_def)

text \<open>
  C9. The two launch arguments are read differently. The robot has an arm, that is
  \<^verbatim>\<open>hand\<close> is among the cameras, exactly when \<^verbatim>\<open>has_arm\<close> is \<^verbatim>\<open>true\<close> or
  \<^verbatim>\<open>True\<close>, so not for \<^verbatim>\<open>TRUE\<close> or \<^verbatim>\<open>tRue\<close>. Point clouds are requested
  exactly when the lower-cased \<^verbatim>\<open>publish_point_clouds\<close> is \<^verbatim>\<open>true\<close>, that is for
  the four letters in any casing. Every other string, \<^verbatim>\<open>1\<close> and \<^verbatim>\<open>false\<close> among
  them, is false for both.
\<close>

theorem boolean_coercions:
  "(''hand'' \<in> set (get_camera_sources s) \<longleftrightarrow> s = ''true'' \<or> s = ''True'')
   \<and> (point_clouds_requested s \<longleftrightarrow> lower s = ''true'')
   \<and> (point_clouds_requested s \<longleftrightarrow>
        (\<exists>a b c d. s = [a, b, c, d] \<and> (a = CHR ''t'' \<or> a = CHR ''T'') \<and>
           (b = CHR ''r'' \<or> b = CHR ''R'') \<and> (c = CHR ''u'' \<or> c = CHR ''U'') \<and>
           (d = CHR ''e'' \<or> d = CHR ''E'')))
   \<and> ''hand'' \<notin> set (get_camera_sources ''TRUE'')
   \<and> ''hand'' \<notin> set (get_camera_sources ''tRue'')
   \<and> ''hand'' \<notin> set (get_camera_sources ''1'')
   \<and> ''hand'' \<notin> set (get_camera_sources ''false'')
   \<and> point_clouds_requested ''TRUE''
   \<and> point_clouds_requested ''True''
   \<and> point_clouds_requested ''tRue''
   \<and> \<not> point_clouds_requested ''1''
   \<and> \<not> point_clouds_requested ''false''"
proof -
  have arm: "''hand'' \<in> set (get_camera_sources s) \<longleftrightarrow> s = ''true'' \<or> s = ''True''"
    by (simp add: get_camera_sources_eq)
  have requested: "point_clouds_requested s \<longleftrightarrow> lower s = ''true''"
    by (simp add: point_clouds_requested_def)
  have casings: "point_clouds_requested s \<longleftrightarrow>
        (\<exists>a b c d. s = [a, b, c, d] \<and> (a = CHR ''t'' \<or> a = CHR ''T'') \<and>
           (b = CHR ''r'' \<or> b = CHR ''R'') \<and> (c = CHR ''u'' \<or> c = CHR ''U'') \<and>
           (d = CHR ''e'' \<or> d = CHR ''E''))"
    unfolding requested by (rule lower_eq_true_iff)
  have arm_examples:
    "''hand'' \<notin> set (get_camera_sources ''TRUE'')"
    "''hand'' \<notin> set (get_camera_sources ''tRue'')"
    "''hand'' \<notin> set (get_camera_sources ''1'')"
    "''hand'' \<notin> set (get_camera_sources ''false'')"
    by (simp_all add: get_camera_sources_eq)
  have requested_examples:
    "point_clouds_requested ''TRUE''"
    "point_clouds_requested ''True''"
    "point_clouds_requested ''tRue''"
    "\<not> point_clouds_requested ''1''"
    "\<not> point_clouds_requested ''false''"
    by code_simp+
  from arm requested casings arm_examples requested_examples show ?thesis
    by (intro conjI)
qed

theorem boolean_coercions_witness:
  "''hand'' \<in> set (get_camera_sources ''True'')
   \<and> lower ''TrUe'' = ''true''
   \<and> point_clouds_requested ''TrUe''
   \<and> ''hand'' \<notin> set (get_camera_sources ''TrUe'')"
proof -
  have "lower ''TrUe'' = ''true''"
    by code_simp
  then show ?thesis
    using boolean_coercions [of "''True''"] boolean_coercions [of "''TrUe''"]
    by simp
qed

text \<open>
  C10. In the container of \<^verbatim>\<open>launch_setup\<close> no two composable nodes have the same
  name, and the namespace of every node is \<^verbatim>\<open>spot_name\<close>. The names of the
  registration nodes and of the point-cloud nodes are the two prefixes put before the
  same cameras in the same order, and no camera is there twice.
\<close>

theorem container_names:
  "distinct (map name (composable_node_descriptions (launch_setup args)))
   \<and> (\<forall>node \<in> set (composable_node_descriptions (launch_setup args)).
         namespace node = spot_name args)
   \<and> map name (create_depth_registration_nodelets spot arm)
       = map (\<lambda>camera. ''register_node_'' @ camera) (get_camera_sources arm)
   \<and> map name (create_point_cloud_nodelets spot arm)
       = map (\<lambda>camera. ''point_cloud_xyzrgb_node_'' @ camera) (get_camera_sources arm)
   \<and> map (drop 14) (map name (create_depth_registration_nodelets spot arm))
       = map (drop 24) (map name (create_point_cloud_nodelets spot arm))
   \<and> distinct (get_camera_sources arm)"
proof -
  have registration: "map name (create_depth_registration_nodelets s a)
       = map (\<lambda>camera. ''register_node_'' @ camera) (get_camera_sources a)" for s a
    by (simp add: create_depth_registration_nodelets_eq comp_def)
  have point_cloud: "map name (create_point_cloud_nodelets s a)
       = map (\<lambda>camera. ''point_cloud_xyzrgb_node_'' @ camera) (get_camera_sources a)" for s a
    by (simp add: create_point_cloud_nodelets_eq comp_def)
  have same: "map (drop 14) (map name (create_depth_registration_nodelets spot arm))
       = map (drop 24) (map name (create_point_cloud_nodelets spot arm))"
    by (simp add: registration point_cloud comp_def)
  have container: "map name (composable_node_descriptions (launch_setup args)) =
      (if resolve_mode (depth_registered_mode args) = FROM_NODELETS
       then map (\<lambda>camera. ''register_node_'' @ camera) (get_camera_sources (has_arm args))
       else [])
      @ (if resolve_point_cloud_policy (point_clouds_requested (publish_point_clouds args))
              (resolve_mode (depth_registered_mode args))
         then map (\<lambda>camera. ''point_cloud_xyzrgb_node_'' @ camera)
                (get_camera_sources (has_arm args))
         else [])"
    by (simp add: composable_node_descriptions_eq comp_def)
  have names: "distinct (map name (composable_node_descriptions (launch_setup args)))"
    unfolding container
    by (auto simp: distinct_map get_camera_sources_distinct inj_on_def)
  have spaces: "\<forall>node \<in> set (composable_node_descriptions (launch_setup args)).
         namespace node = spot_name args"
    by (auto simp: composable_node_descriptions_eq split: if_splits)
  from names spaces registration point_cloud same get_camera_sources_distinct show ?thesis
    by (intro conjI)
qed

theorem container_names_witness:
  "map name
     (composable_node_descriptions
        (launch_setup
          (default_arguments\<lparr>has_arm := ''True'', publish_point_clouds := ''true'',
             spot_name := ''spot1''\<rparr>)))
     = [''register_node_frontleft'', ''register_node_frontright'', ''register_node_left'',
        ''register_node_right'', ''register_node_back'', ''register_node_hand'',
        ''point_cloud_xyzrgb_node_frontleft'', ''point_cloud_xyzrgb_node_frontright'',
        ''point_cloud_xyzrgb_node_left'', ''point_cloud_xyzrgb_node_right'',
        ''point_cloud_xyzrgb_node_back'', ''point_cloud_xyzrgb_node_hand'']
   \<and> distinct
       (map name
         (composable_node_descriptions
           (launch_setup
             (default_arguments\<lparr>has_arm := ''True'', publish_point_clouds := ''true'',
                spot_name := ''spot1''\<rparr>))))
   \<and> map namespace
       (composable_node_descriptions
          (launch_setup
            (default_arguments\<lparr>has_arm := ''True'', publish_point_clouds := ''true'',
               spot_name := ''spot1''\<rparr>)))
       = replicate 12 ''spot1''"
proof -
  have mode: "resolve_mode ''from_nodelets'' = FROM_NODELETS"
    by code_simp
  have requested: "point_clouds_requested ''true''"
    by code_simp
  have nodes: "composable_node_descriptions
        (launch_setup
          (default_arguments\<lparr>has_arm := ''True'', publish_point_clouds := ''true'',
             spot_name := ''spot1''\<rparr>))
      = create_depth_registration_nodelets ''spot1'' ''True''
        @ create_point_cloud_nodelets ''spot1'' ''True''"
    using mode requested
    by (simp add: launch_setup_def Let_def default_arguments_def resolve_point_cloud_policy_def)
  have cameras: "get_camera_sources ''True''
      = [''frontleft'', ''frontright'', ''left'', ''right'', ''back'', ''hand'']"
    by (simp add: get_camera_sources_def)
  have twelve: "replicate 12 ''spot1'' = replicate 6 ''spot1'' @ replicate 6 ''spot1''"
    by (simp add: numeral_eq_Suc)
  have spaces: "map namespace (create_depth_registration_nodelets ''spot1'' ''True'')
        = replicate 6 ''spot1''"
      "map namespace (create_point_cloud_nodelets ''spot1'' ''True'') = replicate 6 ''spot1''"
    by (simp_all add: create_depth_registration_nodelets_eq create_point_cloud_nodelets_eq
        cameras numeral_eq_Suc)
  show ?thesis
    using container_names [of "default_arguments\<lparr>has_arm := ''True'',
        publish_point_clouds := ''true'', spot_name := ''spot1''\<rparr>" "''spot1''" "''True''"]
    unfolding nodes twelve
    by (simp add: cameras spaces)
qed

end
